theory Spec2Isabelle
  imports Complex_Main
begin

section \<open>JavaScript numbers\<close>

text \<open>
  The program is JavaScript; every coordinate and matrix entry is a JS number. A number
  is modelled as an exact real or one of the three special values of the language:
  \<open>Infinity\<close>, \<open>-Infinity\<close> and \<open>NaN\<close>. Rounding, overflow of finite results and the
  sign of zero are not modelled: \<open>Fin 0\<close> stands for both zeros. The only divisors of the
  program that can be zero are \<open>dot(a, a)\<close> and its square root, which are never the
  negative zero, so dividing a non-zero finite number by \<open>Fin 0\<close> gives the infinity of
  the sign of the dividend, and \<open>0 / 0\<close> is \<open>NaN\<close>.
\<close>

datatype jsnum = is_Fin: Fin (the_Fin: real) | PInf | NInf | NaN

fun jneg :: "jsnum \<Rightarrow> jsnum" where
  "jneg (Fin x) = Fin (- x)"
| "jneg PInf = NInf"
| "jneg NInf = PInf"
| "jneg NaN = NaN"

fun jadd :: "jsnum \<Rightarrow> jsnum \<Rightarrow> jsnum" where
  "jadd (Fin x) (Fin y) = Fin (x + y)"
| "jadd NaN _ = NaN"
| "jadd _ NaN = NaN"
| "jadd PInf NInf = NaN"
| "jadd NInf PInf = NaN"
| "jadd PInf _ = PInf"
| "jadd _ PInf = PInf"
| "jadd NInf _ = NInf"
| "jadd _ NInf = NInf"

definition jsub :: "jsnum \<Rightarrow> jsnum \<Rightarrow> jsnum" where
  "jsub x y = jadd x (jneg y)"

text \<open>The sign of a number that is not \<open>NaN\<close>: \<open>1\<close>, \<open>0\<close> or \<open>-1\<close>.\<close>

fun jsgn :: "jsnum \<Rightarrow> int" where
  "jsgn (Fin x) = (if x = 0 then 0 else if 0 < x then 1 else - 1)"
| "jsgn PInf = 1"
| "jsgn NInf = - 1"
| "jsgn NaN = 0"

definition inf_of_sign :: "int \<Rightarrow> jsnum" where
  "inf_of_sign k = (if k = 0 then NaN else if 0 < k then PInf else NInf)"

fun jmul :: "jsnum \<Rightarrow> jsnum \<Rightarrow> jsnum" where
  "jmul (Fin x) (Fin y) = Fin (x * y)"
| "jmul NaN _ = NaN"
| "jmul _ NaN = NaN"
| "jmul x y = inf_of_sign (jsgn x * jsgn y)"

fun jdiv :: "jsnum \<Rightarrow> jsnum \<Rightarrow> jsnum" where
  "jdiv (Fin x) (Fin y) = (if y = 0 then inf_of_sign (jsgn (Fin x)) else Fin (x / y))"
| "jdiv NaN _ = NaN"
| "jdiv _ NaN = NaN"
| "jdiv (Fin x) _ = Fin 0"
| "jdiv x (Fin y) = inf_of_sign (jsgn x * (if y < 0 then - 1 else 1))"
| "jdiv _ _ = NaN"

text \<open>Comparisons: every comparison with \<open>NaN\<close> is false.\<close>

fun jlt :: "jsnum \<Rightarrow> jsnum \<Rightarrow> bool" where
  "jlt (Fin x) (Fin y) = (x < y)"
| "jlt NaN _ = False"
| "jlt _ NaN = False"
| "jlt _ NInf = False"
| "jlt PInf _ = False"
| "jlt _ _ = True"

definition jgt :: "jsnum \<Rightarrow> jsnum \<Rightarrow> bool" where
  "jgt x y = jlt y x"

definition jeq :: "jsnum \<Rightarrow> jsnum \<Rightarrow> bool" where
  "jeq x y = (x \<noteq> NaN \<and> x = y)"

definition jle :: "jsnum \<Rightarrow> jsnum \<Rightarrow> bool" where
  "jle x y = (jlt x y \<or> jeq x y)"

definition jge :: "jsnum \<Rightarrow> jsnum \<Rightarrow> bool" where
  "jge x y = jle y x"

fun jabs :: "jsnum \<Rightarrow> jsnum" where
  "jabs (Fin x) = Fin \<bar>x\<bar>"
| "jabs NaN = NaN"
| "jabs _ = PInf"

fun jsqrt :: "jsnum \<Rightarrow> jsnum" where
  "jsqrt (Fin x) = (if x < 0 then NaN else Fin (sqrt x))"
| "jsqrt PInf = PInf"
| "jsqrt _ = NaN"

text \<open>Truthiness of a number: \<open>0\<close> and \<open>NaN\<close> are falsy.\<close>

definition truthy_num :: "jsnum \<Rightarrow> bool" where
  "truthy_num x = (x \<noteq> Fin 0 \<and> x \<noteq> NaN)"

section \<open>Vectors and matrices\<close>

text \<open>
  The source's arrays of length two are pairs: \<open>Vector\<close> is \<open>[x, y]\<close> and \<open>Matrix\<close> is
  \<open>[[a00, a10], [a01, a11]]\<close>, so \<open>fst\<close> is index \<open>0\<close> and \<open>snd\<close> index \<open>1\<close>.
\<close>

type_synonym vec = "jsnum \<times> jsnum"
type_synonym mat = "vec \<times> vec"

definition scmult :: "jsnum \<Rightarrow> vec \<Rightarrow> vec" where
  "scmult l x = (jmul l (fst x), jmul l (snd x))"

definition vcadd :: "vec \<Rightarrow> vec \<Rightarrow> vec" where
  "vcadd a c = (jadd (fst a) (fst c), jadd (snd a) (snd c))"

definition minus_v :: "vec \<Rightarrow> vec \<Rightarrow> vec" where
  "minus_v a c = (jsub (fst a) (fst c), jsub (snd a) (snd c))"

definition dot :: "vec \<Rightarrow> vec \<Rightarrow> jsnum" where
  "dot a c = jadd (jmul (fst a) (fst c)) (jmul (snd a) (snd c))"

definition wedge :: "vec \<Rightarrow> vec \<Rightarrow> jsnum" where
  "wedge a c = jsub (jmul (fst a) (snd c)) (jmul (snd a) (fst c))"

definition apply_m :: "mat \<Rightarrow> vec \<Rightarrow> vec" where
  "apply_m M x = vcadd (scmult (fst x) (fst M)) (scmult (snd x) (snd M))"

definition mult :: "mat \<Rightarrow> mat \<Rightarrow> mat" where
  "mult M N = (apply_m M (fst N), apply_m M (snd N))"

text \<open>A vector or matrix of real numbers: no entry is \<open>NaN\<close> or infinite.\<close>

definition fin_v :: "vec \<Rightarrow> bool" where
  "fin_v x = (is_Fin (fst x) \<and> is_Fin (snd x))"

definition fin_m :: "mat \<Rightarrow> bool" where
  "fin_m M = (fin_v (fst M) \<and> fin_v (snd M))"

section \<open>The surface element\<close>

text \<open>
  The DOM element a transform is rendered for, with the properties the program reads and
  writes. \<open>dataset_scrollTop\<close> is the entry \<open>elem.dataset.scrollTop\<close>: absent, or the
  text of the number that was stored in it. \<open>parseInt\<close> reads it back: an absent entry
  and the texts of \<open>NaN\<close> and the infinities parse to \<open>NaN\<close>, the text of a real number
  to its integer part (the text is taken in plain decimal notation).
\<close>

datatype css_result =
    Matrix jsnum jsnum jsnum jsnum jsnum jsnum
  | CssFalse
  | CssUndefined

datatype transform_style = Transform_none | Transform_value css_result

datatype overflow_style = Overflow_visible | Overflow_scroll

record element =
  offsetLeft :: jsnum
  offsetTop :: jsnum
  scrollTop :: jsnum
  scrollHeight :: jsnum
  clientWidth :: jsnum
  dataset_scrollTop :: "jsnum option"
  style_transform_origin :: "string option"
  style_transform :: "transform_style option"
  style_overflow :: "overflow_style option"

type_synonym elem_ref = nat
type_synonym dom = "elem_ref \<Rightarrow> element"

fun parseInt :: "jsnum option \<Rightarrow> jsnum" where
  "parseInt (Some (Fin x)) = Fin (of_int (if 0 \<le> x then \<lfloor>x\<rfloor> else \<lceil>x\<rceil>))"
| "parseInt _ = NaN"

text \<open>The result of \<open>css()\<close> as a condition: a string is truthy, \<open>false\<close> and \<open>undefined\<close> are not.\<close>

fun truthy_css :: "css_result \<Rightarrow> bool" where
  "truthy_css (Matrix _ _ _ _ _ _) = True"
| "truthy_css _ = False"

section \<open>Transforms\<close>

text \<open>
  \<open>new Transform(A, b, elem)\<close>: the fields \<open>this.A\<close>, \<open>this.b\<close> and \<open>this.elem\<close>, the last
  one \<open>undefined\<close> (\<open>None\<close>) when the constructor is called with two arguments.
\<close>

record Transform =
  T_A :: mat
  T_b :: vec
  T_elem :: "elem_ref option"

text \<open>
  \<open>Transform.prototype.css\<close>. The method assigns to the entries of \<open>this.A\<close> and \<open>this.b\<close>,
  so the model returns the transform as the call leaves it next to the value returned:
  the string \<open>matrix(a,b,c,d,e,f)\<close> as its six numbers, \<open>false\<close>, or \<open>undefined\<close> where the
  function ends without a \<open>return\<close>. \<open>sh\<close> is \<open>screen.height\<close>. The local variables \<open>st\<close>,
  \<open>dy\<close> and \<open>dx\<close> of the method are the functions \<open>css_st\<close>, \<open>css_dy\<close> and \<open>css_dx\<close> of
  the element and of \<open>A[0][0]\<close> after the scale floor.
\<close>

definition css_st :: "element \<Rightarrow> jsnum" where
  "css_st el =
     (let saved = parseInt (dataset_scrollTop el)
      in if jgt (scrollTop el) (Fin 0) then scrollTop el else saved)"

definition css_dy :: "jsnum \<Rightarrow> element \<Rightarrow> jsnum \<Rightarrow> jsnum" where
  "css_dy sh el a00 =
     (if jle sh (scrollHeight el)
      then jsub (jsub (jmul (scrollHeight el) a00) sh) (jmul (css_st el) a00)
      else jabs (jsub sh (jmul (scrollHeight el) a00)))"

definition css_dx :: "element \<Rightarrow> jsnum \<Rightarrow> jsnum" where
  "css_dx el a00 = jsub (jmul (clientWidth el) a00) (clientWidth el)"

definition css :: "jsnum \<Rightarrow> dom \<Rightarrow> Transform \<Rightarrow> css_result \<times> Transform" where
  "css sh d T =
    (let a00 = (if jlt (fst (fst (T_A T))) (Fin 1) then Fin 1 else fst (fst (T_A T)));
         a01 = snd (fst (T_A T));
         a10 = fst (snd (T_A T));
         a11 = (if jlt (snd (snd (T_A T))) (Fin 1) then Fin 1 else snd (snd (T_A T)));
         T1 = T\<lparr>T_A := ((a00, a01), (a10, a11))\<rparr>
     in case T_elem T of
          None \<Rightarrow> (CssUndefined, T1)
        | Some e \<Rightarrow>
           (let el = d e;
                st = css_st el;
                dy = css_dy sh el a00;
                dx = css_dx el a00;
                y1 = (if jgt (snd (T_b T)) (jmul st a00) then jmul st a00 else snd (T_b T));
                y2 = (if jlt y1 (jneg dy) then jneg dy else y1);
                x1 = (if jgt (fst (T_b T)) (Fin 0) then Fin 0 else fst (T_b T));
                x2 = (if jlt x1 (jneg dx) then jneg dx else x1);
                T2 = T1\<lparr>T_b := (x2, y2)\<rparr>
            in if jeq a00 (Fin 1) \<and> jeq a11 (Fin 1) then (CssFalse, T2)
               else (Matrix a00 a01 a10 a11 x2 (jsub y2 (jmul st a00)), T2)))"

definition cascade :: "Transform \<Rightarrow> Transform \<Rightarrow> elem_ref option \<Rightarrow> Transform" where
  "cascade T U e =
     \<lparr>T_A = mult (T_A T) (T_A U), T_b = vcadd (apply_m (T_A T) (T_b U)) (T_b T), T_elem = e\<rparr>"

definition rotate_m :: "jsnum \<Rightarrow> jsnum \<Rightarrow> mat" where
  "rotate_m c s = ((c, s), (jneg s, c))"

definition rotscale :: "vec \<Rightarrow> vec \<Rightarrow> mat" where
  "rotscale a c =
     (let alen = dot a a; sig = dot a c; del = wedge a c
      in rotate_m (jdiv sig alen) (jdiv del alen))"

definition justscale :: "vec \<Rightarrow> vec \<Rightarrow> mat" where
  "justscale a c =
     (let alen = jsqrt (dot a a); blen = jsqrt (dot c c); scale = jdiv blen alen
      in rotate_m scale (Fin 0))"

definition zoom :: "vec \<times> vec \<Rightarrow> vec \<times> vec \<Rightarrow> bool \<Rightarrow> elem_ref option \<Rightarrow> Transform" where
  "zoom s d rot e =
     (let a = minus_v (snd s) (fst s);
          c = minus_v (snd d) (fst d);
          rs = (if rot then rotscale a c else justscale a c);
          rs0 = apply_m rs (fst s);
          t = minus_v (fst d) rs0
      in \<lparr>T_A = rs, T_b = t, T_elem = e\<rparr>)"

definition avgVector :: "vec \<Rightarrow> vec \<Rightarrow> jsnum \<Rightarrow> vec" where
  "avgVector u v progress =
     (let u1 = scmult (jsub (Fin 1) progress) u; v1 = scmult progress v in vcadd u1 v1)"

definition avgMatrix :: "mat \<Rightarrow> mat \<Rightarrow> jsnum \<Rightarrow> mat" where
  "avgMatrix M N progress =
     (avgVector (fst M) (fst N) progress, avgVector (snd M) (snd N) progress)"

definition Transform_avg :: "Transform \<Rightarrow> Transform \<Rightarrow> jsnum \<Rightarrow> Transform" where
  "Transform_avg Z I progress =
     \<lparr>T_A = avgMatrix (T_A Z) (T_A I) progress, T_b = avgVector (T_b Z) (T_b I) progress,
      T_elem = None\<rparr>"

definition identity :: Transform where
  "identity = \<lparr>T_A = ((Fin 1, Fin 0), (Fin 0, Fin 1)), T_b = (Fin 0, Fin 0), T_elem = None\<rparr>"

text \<open>
  The point a transform sends \<open>x\<close> to, \<open>Ax + b\<close>: the expression \<open>cascade\<close> evaluates at
  \<open>U.b\<close>, \<open>vcadd(apply(T.A, x), T.b)\<close>.
\<close>

definition transform_point :: "Transform \<Rightarrow> vec \<Rightarrow> vec" where
  "transform_point T x = vcadd (apply_m (T_A T) x) (T_b T)"

section \<open>The gesture engine\<close>

text \<open>
  Transforms are objects that \<open>css()\<close> changes in place, and the engine keeps references
  to them: after \<open>finalize\<close>, \<open>activeZoom\<close> and \<open>resultantZoom\<close> are the same object. The
  objects live in a store, a list indexed by address; \<open>new Transform\<close> appends to it. The
  global \<open>identity\<close> is the object at address \<open>0\<close>. Every \<open>Transform\<close> is built by
  \<open>cascade\<close>, \<open>zoom\<close>, \<open>Transform.avg\<close> or the literal of \<open>identity\<close> from arrays made
  for it, so no two objects share an array and an object is the unit of aliasing.
\<close>

type_synonym ref = nat

definition identity_ref :: ref where
  "identity_ref = 0"

record config =
  cfg_pan :: bool
  cfg_rotate :: bool

record raw_config =
  raw_pan :: "bool option"
  raw_rotate :: "bool option"

definition defaults :: "'a option \<Rightarrow> 'a \<Rightarrow> 'a" where
  "defaults param val = (case param of None \<Rightarrow> val | Some p \<Rightarrow> p)"

definition default_config :: "raw_config option \<Rightarrow> config \<Rightarrow> config" where
  "default_config cfg cfg_def =
     (let new_cfg = defaults cfg \<lparr>raw_pan = None, raw_rotate = None\<rparr>
      in \<lparr>cfg_pan = defaults (raw_pan new_cfg) (cfg_pan cfg_def),
          cfg_rotate = defaults (raw_rotate new_cfg) (cfg_rotate cfg_def)\<rparr>)"

text \<open>
  The fields of a \<open>Zoom\<close> object and the variable \<open>tapped\<close> of its constructor, with the
  part of the world its methods read and write: the store of transforms, the document
  (the elements by reference), \<open>screen.height\<close>, and whether the window has
  \<open>requestAnimationFrame\<close>.
\<close>

record zoom_state =
  heap :: "Transform list"
  document :: dom
  screen_height :: jsnum
  has_raf :: bool
  elem :: elem_ref
  zooming :: bool
  inZoom :: bool
  activeZoom :: ref
  resultantZoom :: ref
  srcCoords :: "vec \<times> vec"
  tapped :: bool
  config :: config

text \<open>
  The constructor, given the document \<open>d\<close>, \<open>screen.height\<close>, whether the window has
  \<open>requestAnimationFrame\<close>, the element and the configuration passed (\<open>None\<close> when
  \<open>undefined\<close>). It sets \<open>srcCoords\<close> to \<open>[0, 0]\<close>, two numbers where \<open>zoom\<close> reads two
  points; indexing a number gives \<open>undefined\<close>, which arithmetic turns into \<open>NaN\<close>, so the
  value acts in \<open>zoom\<close> as a pair of points of \<open>NaN\<close>s. It is overwritten by every
  \<open>touchstart\<close> that sets \<open>zooming\<close>, before \<open>touchmove\<close> can read it.
\<close>

definition Zoom :: "dom \<Rightarrow> jsnum \<Rightarrow> bool \<Rightarrow> elem_ref \<Rightarrow> raw_config option \<Rightarrow> zoom_state" where
  "Zoom d sh raf e cfg =
     \<lparr>heap = [identity],
      document = d(e := (d e)\<lparr>style_transform_origin := Some ''0 0''\<rparr>),
      screen_height = sh,
      has_raf = raf,
      elem = e,
      zooming = False,
      inZoom = False,
      activeZoom = identity_ref,
      resultantZoom = identity_ref,
      srcCoords = ((NaN, NaN), (NaN, NaN)),
      tapped = False,
      config = default_config cfg \<lparr>cfg_pan = False, cfg_rotate = True\<rparr>\<rparr>"

datatype js_error = TypeError

text \<open>
  A touch is its \<open>pageX\<close> and \<open>pageY\<close>. \<open>getCoordsDouble\<close> and \<open>getCoordsSingle\<close> take
  the element and the touches they read, \<open>t[0]\<close> and \<open>t[1]\<close>; \<open>getCoords\<close> chooses by
  \<open>t.length > 1\<close>. Reading \<open>t[0].pageX\<close> of an empty list throws.
\<close>

definition getCoordsDouble :: "element \<Rightarrow> vec \<Rightarrow> vec \<Rightarrow> vec \<times> vec" where
  "getCoordsDouble el t0 t1 =
     (let oX = offsetLeft el; oY = offsetTop el
      in ((jsub (fst t0) oX, jsub (snd t0) oY), (jsub (fst t1) oX, jsub (snd t1) oY)))"

definition getCoordsSingle :: "element \<Rightarrow> vec \<Rightarrow> vec \<times> vec" where
  "getCoordsSingle el t0 =
     (let oX = offsetLeft el; oY = offsetTop el;
          x = jsub (fst t0) oX; y = jsub (snd t0) oY
      in ((x, y), (jadd x (Fin 1), jadd y (Fin 1))))"

fun getCoords :: "element \<Rightarrow> vec list \<Rightarrow> js_error + (vec \<times> vec)" where
  "getCoords el (t0 # t1 # ts) = Inr (getCoordsDouble el t0 t1)"
| "getCoords el [t0] = Inr (getCoordsSingle el t0)"
| "getCoords el [] = Inl TypeError"

definition css_at :: "jsnum \<Rightarrow> dom \<Rightarrow> Transform list \<Rightarrow> ref \<Rightarrow> css_result \<times> Transform list" where
  "css_at sh d h r = (let (c, T) = css sh d (h ! r) in (c, h[r := T]))"

definition finalize :: "zoom_state \<Rightarrow> zoom_state" where
  "finalize s = s\<lparr>activeZoom := resultantZoom s\<rparr>"

definition repaint :: "zoom_state \<Rightarrow> zoom_state" where
  "repaint s =
     (let (c, h1) = css_at (screen_height s) (document s) (heap s) (resultantZoom s);
          el = document s (elem s)
      in if truthy_css c then
           (let d1 = (if jgt (scrollTop el) (Fin 0)
                      then (document s)(elem s := el\<lparr>dataset_scrollTop := Some (scrollTop el)\<rparr>)
                      else document s);
                (c2, h2) = css_at (screen_height s) d1 h1 (resultantZoom s)
            in s\<lparr>heap := h2, inZoom := True,
                 document := d1(elem s := (d1 (elem s))
                   \<lparr>style_transform := Some (Transform_value c2),
                    style_overflow := Some Overflow_visible\<rparr>)\<rparr>)
         else
           s\<lparr>heap := h1, inZoom := False,
             document := (document s)(elem s := el
               \<lparr>style_overflow := Some Overflow_scroll,
                style_transform := Some Transform_none\<rparr>)\<rparr>)"

text \<open>\<open>previewZoom\<close>: the transform \<open>cascade\<close> returns is a new object.\<close>

definition previewZoom :: "Transform \<Rightarrow> zoom_state \<Rightarrow> zoom_state" where
  "previewZoom additionalZoom s =
     repaint (s\<lparr>heap := heap s @ [cascade additionalZoom (heap s ! activeZoom s) (Some (elem s))],
               resultantZoom := length (heap s)\<rparr>)"

definition setZoom :: "ref \<Rightarrow> zoom_state \<Rightarrow> zoom_state" where
  "setZoom newZoom s = repaint (finalize (s\<lparr>resultantZoom := newZoom\<rparr>))"

text \<open>
  \<open>reset\<close> with \<open>requestAnimationFrame\<close> only schedules \<open>step\<close>: the closure, its captured
  \<open>Z\<close> and its \<open>startTime\<close> (\<open>null\<close> at first), is returned as the frame requested. \<open>step\<close>
  is the callback, run with the time of the frame; it returns the closure when it
  requests another frame.
\<close>

record anim =
  anim_Z :: ref
  startTime :: "jsnum option"

definition reset :: "zoom_state \<Rightarrow> anim option \<times> zoom_state" where
  "reset s =
     (if has_raf s then (Some \<lparr>anim_Z = activeZoom s, startTime = None\<rparr>, s)
      else (None, setZoom identity_ref s))"

definition step :: "anim \<Rightarrow> jsnum \<Rightarrow> zoom_state \<Rightarrow> anim option \<times> zoom_state" where
  "step a time s =
     (let start = (case startTime a of None \<Rightarrow> time
                   | Some t0 \<Rightarrow> if truthy_num t0 then t0 else time);
          progress = jdiv (jsub time start) (Fin 100)
      in if jge progress (Fin 1) then (None, setZoom identity_ref s)
         else (Some (a\<lparr>startTime := Some start\<rparr>),
               setZoom (length (heap s))
                 (s\<lparr>heap := heap s @
                      [Transform_avg (heap s ! anim_Z a) (heap s ! identity_ref) progress]\<rparr>)))"

text \<open>
  What a listener does besides changing the state: whether it called
  \<open>evt.preventDefault()\<close>, whether it started the 300 ms timer, and the frame it requested.
\<close>

record effects =
  defaultPrevented :: bool
  timeoutSet :: bool
  frameRequested :: "anim option"

definition no_effects :: effects where
  "no_effects = \<lparr>defaultPrevented = False, timeoutSet = False, frameRequested = None\<rparr>"

definition prevent_default :: effects where
  "prevent_default = \<lparr>defaultPrevented = True, timeoutSet = False, frameRequested = None\<rparr>"

text \<open>The callback of the 300 ms timer.\<close>

definition tap_timeout :: "zoom_state \<Rightarrow> zoom_state" where
  "tap_timeout s = s\<lparr>tapped := False\<rparr>"

text \<open>
  The listeners take \<open>evt.touches\<close>, \<open>None\<close> when the event has none. \<open>getCoords\<close> throws
  only on an empty list, where the listener has changed nothing before the call, so an
  error leaves the state as it was.
\<close>

definition touchstart :: "vec list option \<Rightarrow> zoom_state \<Rightarrow> js_error + (effects \<times> zoom_state)" where
  "touchstart t s =
     (if \<not> inZoom s \<and> \<not> zooming s \<and> (case t of None \<Rightarrow> True | Some ts \<Rightarrow> length ts \<noteq> 2)
      then Inr (no_effects, s)
      else case t of
        None \<Rightarrow> Inr (no_effects, s)
      | Some ts \<Rightarrow>
         (let (s1, timer, do_reset) =
                (if length ts = 2 then (s\<lparr>zooming := True\<rparr>, False, False)
                 else if length ts = 1 then
                   (if \<not> tapped s
                    then ((if cfg_pan (config s) then s\<lparr>tapped := True, zooming := True\<rparr>
                           else s\<lparr>tapped := True\<rparr>), True, False)
                    else (s\<lparr>tapped := False\<rparr>, False, True))
                 else (s, False, False));
              prevented = (zooming s1 \<or> tapped s1 \<or> do_reset)
          in case (if zooming s1
                   then (case getCoords (document s1 (elem s1)) ts of
                           Inl e \<Rightarrow> Inl e
                         | Inr c \<Rightarrow> Inr (s1\<lparr>srcCoords := c\<rparr>))
                   else Inr s1) of
               Inl e \<Rightarrow> Inl e
             | Inr s2 \<Rightarrow>
                (let (fr, s3) = (if do_reset then reset s2 else (None, s2))
                 in Inr (\<lparr>defaultPrevented = prevented, timeoutSet = timer,
                          frameRequested = fr\<rparr>, s3))))"

text \<open>
  In \<open>touchmove\<close> the element passed to \<open>zoom\<close> is \<open>this.elem\<close> of the listener, whose
  \<open>this\<close> is the parent node and has no such property: \<open>undefined\<close>.
\<close>

definition touchmove :: "vec list option \<Rightarrow> zoom_state \<Rightarrow> js_error + (effects \<times> zoom_state)" where
  "touchmove t s =
     (if \<not> inZoom s \<and> \<not> zooming s then Inr (no_effects, s)
      else (case t of
        None \<Rightarrow> Inr (no_effects, s)
      | Some ts \<Rightarrow>
         (if \<not> zooming s then Inr (no_effects, s)
          else (case getCoords (document s (elem s)) ts of
                  Inl e \<Rightarrow> Inl e
                | Inr destCoords \<Rightarrow>
                   (let additionalZoom =
                          zoom (srcCoords s) destCoords (cfg_rotate (config s)) None
                    in Inr (prevent_default, previewZoom additionalZoom s))))))"

definition touchend :: "zoom_state \<Rightarrow> effects \<times> zoom_state" where
  "touchend s =
     (if \<not> inZoom s \<and> \<not> zooming s then (no_effects, s)
      else if zooming s then (prevent_default, finalize (s\<lparr>zooming := False\<rparr>))
      else (no_effects, s))"

text \<open>
  The states the engine can be in: both references point into the store, and the object
  at address \<open>0\<close> is still the identity.
\<close>

definition wf_state :: "zoom_state \<Rightarrow> bool" where
  "wf_state s =
     (activeZoom s < length (heap s) \<and> resultantZoom s < length (heap s)
      \<and> heap s ! identity_ref = identity)"

section \<open>A page to run the engine on\<close>

text \<open>
  An element 300 wide holding content 1000 high, scrolled down by 100, on a screen 800
  high, and the engine as its constructor leaves it, with the default configuration and a
  window that has \<open>requestAnimationFrame\<close>.
\<close>

definition example_element :: element where
  "example_element =
     \<lparr>offsetLeft = Fin 0, offsetTop = Fin 0, scrollTop = Fin 100, scrollHeight = Fin 1000,
      clientWidth = Fin 300, dataset_scrollTop = None, style_transform_origin = None,
      style_transform = None, style_overflow = None\<rparr>"

definition example_document :: dom where
  "example_document = (\<lambda>r. example_element)"

definition example_Zoom :: zoom_state where
  "example_Zoom = Zoom example_document (Fin 800) True 0 None"

text \<open>
  Two sessions on that page, each the state a \<open>touchstart\<close> with two fingers leaves: one
  with the fingers ten pixels apart, one with both fingers on the same pixel.
\<close>

definition example_session :: zoom_state where
  "example_session =
     snd (projr (touchstart (Some [(Fin 0, Fin 0), (Fin 10, Fin 0)]) example_Zoom))"

definition degenerate_session :: zoom_state where
  "degenerate_session =
     snd (projr (touchstart (Some [(Fin 5, Fin 5), (Fin 5, Fin 5)]) example_Zoom))"

text \<open>The transform whose six coefficients are all \<open>NaN\<close>.\<close>

definition nan_transform :: "elem_ref option \<Rightarrow> Transform" where
  "nan_transform e = \<lparr>T_A = ((NaN, NaN), (NaN, NaN)), T_b = (NaN, NaN), T_elem = e\<rparr>"

section \<open>Vectors and matrices of real numbers\<close>

lemma fin_vE: "fin_v x \<Longrightarrow> (\<And>p q. x = (Fin p, Fin q) \<Longrightarrow> P) \<Longrightarrow> P"
  by (cases x; cases "fst x"; cases "snd x") (auto simp: fin_v_def)

lemma fin_mE:
  "fin_m M \<Longrightarrow> (\<And>p q r s. M = ((Fin p, Fin q), (Fin r, Fin s)) \<Longrightarrow> P) \<Longrightarrow> P"
  unfolding fin_m_def by (cases M) (auto elim!: fin_vE)

section \<open>The similarity solver\<close>

text \<open>
  The two equations behind \<open>rotscale\<close>: with \<open>n = |a|\<^sup>2\<close>, the matrix built from
  \<open>dot(a, b) / n\<close> and \<open>wedge(a, b) / n\<close> sends \<open>a = (p, q)\<close> to \<open>b = (u, v)\<close>.
\<close>

lemma rotscale_algebra:
  fixes p q u v n :: real
  assumes n: "n = p * p + q * q" and nz: "n \<noteq> 0"
  shows "p * ((p * u + q * v) / n) - q * ((p * v - q * u) / n) = u"
    and "p * ((p * v - q * u) / n) + q * ((p * u + q * v) / n) = v"
proof -
  define S where "S = p * u + q * v"
  define D where "D = p * v - q * u"
  have "p * (S / n) - q * (D / n) = (p * S - q * D) / n"
    by (simp add: diff_divide_distrib)
  also have "p * S - q * D = u * n"
    by (simp add: n S_def D_def algebra_simps)
  finally show "p * ((p * u + q * v) / n) - q * ((p * v - q * u) / n) = u"
    using nz by (simp add: S_def D_def)
  have "p * (D / n) + q * (S / n) = (p * D + q * S) / n"
    by (simp add: add_divide_distrib)
  also have "p * D + q * S = v * n"
    by (simp add: n S_def D_def algebra_simps)
  finally show "p * ((p * v - q * u) / n) + q * ((p * u + q * v) / n) = v"
    using nz by (simp add: S_def D_def)
qed

lemma rotscale_fin:
  assumes n: "n = p * p + q * q" and nz: "n \<noteq> 0"
  shows "rotscale (Fin p, Fin q) (Fin u, Fin v)
         = ((Fin ((p * u + q * v) / n), Fin ((p * v - q * u) / n)),
            (Fin (- ((p * v - q * u) / n)), Fin ((p * u + q * v) / n)))"
proof -
  have a: "dot (Fin p, Fin q) (Fin p, Fin q) = Fin n"
    by (simp add: dot_def n)
  have b: "dot (Fin p, Fin q) (Fin u, Fin v) = Fin (p * u + q * v)"
    by (simp add: dot_def)
  have c: "wedge (Fin p, Fin q) (Fin u, Fin v) = Fin (p * v - q * u)"
    by (simp add: wedge_def jsub_def)
  show ?thesis
    unfolding rotscale_def Let_def a b c rotate_m_def using nz by simp
qed

text \<open>The solver on two fingers that move apart along the x axis: a scaling by two.\<close>

lemma zoom_example:
  "zoom ((Fin 0, Fin 0), (Fin 10, Fin 0)) ((Fin 0, Fin 0), (Fin 20, Fin 0)) True None
   = \<lparr>T_A = ((Fin 2, Fin 0), (Fin 0, Fin 2)), T_b = (Fin 0, Fin 0), T_elem = None\<rparr>"
  by (simp add: zoom_def rotscale_def rotate_m_def Let_def dot_def wedge_def minus_v_def jsub_def
      apply_m_def vcadd_def scmult_def)

text \<open>
  The solver in exact arithmetic. For source points \<open>s0 \<noteq> s1\<close> and destination points
  \<open>d0\<close>, \<open>d1\<close> with real coordinates, the transform \<open>zoom([s0, s1], [d0, d1], true)\<close> sends
  \<open>s0\<close> to \<open>d0\<close> and \<open>s1\<close> to \<open>d1\<close>. This is a fact about the exact sums, products and
  quotients of this model only. The source computes in doubles, whose rounding the model
  leaves out: there the images agree with \<open>d0\<close> and \<open>d1\<close> up to rounding, not always to
  the last place (for \<open>s = [[0, 0], [1, 2]]\<close> and \<open>d = [[0, 0], [1, 3]]\<close> the quotients
  \<open>7 / 5\<close> and \<open>1 / 5\<close> are rounded and the image of \<open>s1\<close> comes out as
  \<open>[0.9999999999999999, 3]\<close>).
\<close>

lemma zoom_exact_arithmetic:
  assumes "fin_v s0" and "fin_v s1" and "fin_v d0" and "fin_v d1" and "s0 \<noteq> s1"
  shows "transform_point (zoom (s0, s1) (d0, d1) True e) s0 = d0
       \<and> transform_point (zoom (s0, s1) (d0, d1) True e) s1 = d1"
proof -
  from assms(1) obtain x0 y0 where s0: "s0 = (Fin x0, Fin y0)" by (rule fin_vE)
  from assms(2) obtain x1 y1 where s1: "s1 = (Fin x1, Fin y1)" by (rule fin_vE)
  from assms(3) obtain u0 v0 where d0: "d0 = (Fin u0, Fin v0)" by (rule fin_vE)
  from assms(4) obtain u1 v1 where d1: "d1 = (Fin u1, Fin v1)" by (rule fin_vE)
  define p where "p = x1 - x0"
  define q where "q = y1 - y0"
  define n where "n = p * p + q * q"
  define c where "c = (p * (u1 - u0) + q * (v1 - v0)) / n"
  define s where "s = (p * (v1 - v0) - q * (u1 - u0)) / n"
  have nz: "n \<noteq> 0" using assms(5) s0 s1 by (auto simp: p_def q_def n_def)
  have m: "minus_v s1 s0 = (Fin p, Fin q)" "minus_v d1 d0 = (Fin (u1 - u0), Fin (v1 - v0))"
    by (simp_all add: s0 s1 d0 d1 minus_v_def jsub_def p_def q_def)
  have rs: "rotscale (minus_v s1 s0) (minus_v d1 d0) = ((Fin c, Fin s), (Fin (- s), Fin c))"
    unfolding m c_def s_def by (rule rotscale_fin [OF n_def nz])
  have e1: "p * c - q * s = u1 - u0" and e2: "p * s + q * c = v1 - v0"
    using rotscale_algebra [OF n_def nz, where u = "u1 - u0" and v = "v1 - v0"]
    by (simp_all add: c_def s_def)
  have z: "zoom (s0, s1) (d0, d1) True e
           = \<lparr>T_A = ((Fin c, Fin s), (Fin (- s), Fin c)),
              T_b = (Fin (u0 - (x0 * c + y0 * - s)), Fin (v0 - (x0 * s + y0 * c))),
              T_elem = e\<rparr>"
    using rs
    by (simp add: zoom_def Let_def s0 d0 apply_m_def vcadd_def scmult_def minus_v_def jsub_def)
  have "transform_point (zoom (s0, s1) (d0, d1) True e) s0 = d0"
    unfolding z by (simp add: transform_point_def s0 d0 apply_m_def vcadd_def scmult_def)
  moreover have "x1 * c + y1 * - s + (u0 - (x0 * c + y0 * - s)) = u1"
    using e1 by (simp add: p_def q_def algebra_simps)
  moreover have "x1 * s + y1 * c + (v0 - (x0 * s + y0 * c)) = v1"
    using e2 by (simp add: p_def q_def algebra_simps)
  ultimately show ?thesis
    unfolding z by (simp add: transform_point_def s1 d1 apply_m_def vcadd_def scmult_def)
qed

lemma zoom_exact_arithmetic_example:
  "fin_v (Fin 0, Fin 0) \<and> fin_v (Fin 10, Fin 0) \<and> fin_v (Fin 3, Fin 4) \<and> fin_v (Fin 3, Fin 24)
   \<and> (Fin 0, Fin 0) \<noteq> (Fin 10, Fin 0)
   \<and> transform_point (zoom ((Fin 0, Fin 0), (Fin 10, Fin 0)) ((Fin 3, Fin 4), (Fin 3, Fin 24))
        True None) (Fin 0, Fin 0) = (Fin 3, Fin 4)
   \<and> transform_point (zoom ((Fin 0, Fin 0), (Fin 10, Fin 0)) ((Fin 3, Fin 4), (Fin 3, Fin 24))
        True None) (Fin 10, Fin 0) = (Fin 3, Fin 24)"
proof -
  have h: "fin_v (Fin 0, Fin 0)" "fin_v (Fin 10, Fin 0)" "fin_v (Fin 3, Fin 4)"
    "fin_v (Fin 3, Fin 24)" by (simp_all add: fin_v_def)
  have ne: "(Fin 0, Fin 0) \<noteq> (Fin 10, Fin 0)" by simp
  show ?thesis
    using h ne zoom_exact_arithmetic [OF h ne, of None] by simp
qed

section \<open>Composition and interpolation\<close>

text \<open>
  C8. For every transform \<open>T\<close> with real entries, \<open>cascade(T, identity)\<close> and
  \<open>cascade(identity, T)\<close> have the matrix and the translation of \<open>T\<close>.
\<close>

theorem cascade_identity:
  assumes "fin_m (T_A T)" and "fin_v (T_b T)"
  shows "T_A (cascade T identity e) = T_A T \<and> T_b (cascade T identity e) = T_b T
       \<and> T_A (cascade identity T e) = T_A T \<and> T_b (cascade identity T e) = T_b T"
proof -
  from assms(1) obtain p q r s where A: "T_A T = ((Fin p, Fin q), (Fin r, Fin s))"
    by (rule fin_mE)
  from assms(2) obtain x y where b: "T_b T = (Fin x, Fin y)" by (rule fin_vE)
  show ?thesis
    by (simp add: cascade_def identity_def mult_def apply_m_def vcadd_def scmult_def A b)
qed

theorem cascade_identity_witness:
  "fin_m (T_A \<lparr>T_A = ((Fin 2, Fin 1), (Fin (- 1), Fin 2)), T_b = (Fin 3, Fin 4), T_elem = Some 0\<rparr>)
   \<and> fin_v (T_b \<lparr>T_A = ((Fin 2, Fin 1), (Fin (- 1), Fin 2)), T_b = (Fin 3, Fin 4), T_elem = Some 0\<rparr>)
   \<and> T_A (cascade \<lparr>T_A = ((Fin 2, Fin 1), (Fin (- 1), Fin 2)), T_b = (Fin 3, Fin 4), T_elem = Some 0\<rparr>
        identity None) = ((Fin 2, Fin 1), (Fin (- 1), Fin 2))
   \<and> T_b (cascade identity
        \<lparr>T_A = ((Fin 2, Fin 1), (Fin (- 1), Fin 2)), T_b = (Fin 3, Fin 4), T_elem = Some 0\<rparr> None)
       = (Fin 3, Fin 4)"
proof -
  let ?T = "\<lparr>T_A = ((Fin 2, Fin 1), (Fin (- 1), Fin 2)), T_b = (Fin 3, Fin 4), T_elem = Some 0\<rparr>"
  have h1: "fin_m (T_A ?T)" by (simp add: fin_m_def fin_v_def)
  have h2: "fin_v (T_b ?T)" by (simp add: fin_v_def)
  show ?thesis
    using h1 h2 cascade_identity [OF h1 h2, of None] by simp
qed

text \<open>
  C9. For transforms \<open>Z\<close> and \<open>I\<close> with real entries, \<open>Transform.avg(Z, I, 0)\<close> has the
  matrix and the translation of \<open>Z\<close>, and \<open>Transform.avg(Z, I, 1)\<close> those of \<open>I\<close>. A
  transform is its matrix and its vector (\<open>Type Transform is [Matrix, Vector]\<close>); the
  element of the result is always absent, which C10 is about.
\<close>

theorem Transform_avg_endpoints:
  assumes "fin_m (T_A Z)" and "fin_v (T_b Z)" and "fin_m (T_A I)" and "fin_v (T_b I)"
  shows "T_A (Transform_avg Z I (Fin 0)) = T_A Z \<and> T_b (Transform_avg Z I (Fin 0)) = T_b Z
       \<and> T_A (Transform_avg Z I (Fin 1)) = T_A I \<and> T_b (Transform_avg Z I (Fin 1)) = T_b I"
proof -
  from assms(1) obtain p q r s where A: "T_A Z = ((Fin p, Fin q), (Fin r, Fin s))"
    by (rule fin_mE)
  from assms(2) obtain x y where b: "T_b Z = (Fin x, Fin y)" by (rule fin_vE)
  from assms(3) obtain p' q' r' s' where A': "T_A I = ((Fin p', Fin q'), (Fin r', Fin s'))"
    by (rule fin_mE)
  from assms(4) obtain x' y' where b': "T_b I = (Fin x', Fin y')" by (rule fin_vE)
  show ?thesis
    by (simp add: Transform_avg_def avgMatrix_def avgVector_def vcadd_def scmult_def jsub_def
        A b A' b')
qed

theorem Transform_avg_endpoints_witness:
  "fin_m (T_A \<lparr>T_A = ((Fin 2, Fin 1), (Fin (- 1), Fin 2)), T_b = (Fin 3, Fin 4), T_elem = None\<rparr>)
   \<and> fin_v (T_b \<lparr>T_A = ((Fin 2, Fin 1), (Fin (- 1), Fin 2)), T_b = (Fin 3, Fin 4), T_elem = None\<rparr>)
   \<and> fin_m (T_A identity) \<and> fin_v (T_b identity)
   \<and> T_A (Transform_avg
        \<lparr>T_A = ((Fin 2, Fin 1), (Fin (- 1), Fin 2)), T_b = (Fin 3, Fin 4), T_elem = None\<rparr>
        identity (Fin 0)) = ((Fin 2, Fin 1), (Fin (- 1), Fin 2))
   \<and> T_b (Transform_avg
        \<lparr>T_A = ((Fin 2, Fin 1), (Fin (- 1), Fin 2)), T_b = (Fin 3, Fin 4), T_elem = None\<rparr>
        identity (Fin 1)) = (Fin 0, Fin 0)"
proof -
  let ?Z = "\<lparr>T_A = ((Fin 2, Fin 1), (Fin (- 1), Fin 2)), T_b = (Fin 3, Fin 4), T_elem = None\<rparr>"
  have h1: "fin_m (T_A ?Z)" by (simp add: fin_m_def fin_v_def)
  have h2: "fin_v (T_b ?Z)" by (simp add: fin_v_def)
  have h3: "fin_m (T_A identity)" by (simp add: identity_def fin_m_def fin_v_def)
  have h4: "fin_v (T_b identity)" by (simp add: identity_def fin_v_def)
  show ?thesis
    using h1 h2 h3 h4 Transform_avg_endpoints [OF h1 h2 h3 h4]
    by (simp add: identity_def)
qed

section \<open>Rendering\<close>

text \<open>
  What \<open>css()\<close> leaves of the transform it is called on: the element and the two
  off-diagonal entries are never assigned, and a diagonal entry is assigned only \<open>1\<close>,
  when it is below \<open>1\<close>.
\<close>

lemma css_frame:
  "T_elem (snd (css sh d T)) = T_elem T
   \<and> snd (fst (T_A (snd (css sh d T)))) = snd (fst (T_A T))
   \<and> fst (snd (T_A (snd (css sh d T)))) = fst (snd (T_A T))
   \<and> fst (fst (T_A (snd (css sh d T)))) =
       (if jlt (fst (fst (T_A T))) (Fin 1) then Fin 1 else fst (fst (T_A T)))
   \<and> snd (snd (T_A (snd (css sh d T)))) =
       (if jlt (snd (snd (T_A T))) (Fin 1) then Fin 1 else snd (snd (T_A T)))"
  by (simp add: css_def Let_def split: option.split)

lemma css_matrix_entries:
  assumes "fst (css sh d T) = Matrix a b' c d' x y"
  shows "((a, b'), (c, d')) = T_A (snd (css sh d T))"
  using assms by (auto simp: css_def Let_def split: option.splits if_splits)

lemma jge_floor:
  "jlt x (Fin 1) \<or> jge x (Fin 1) \<Longrightarrow> jge (if jlt x (Fin 1) then Fin 1 else x) (Fin 1)"
  by (auto simp: jge_def jle_def jeq_def)

text \<open>
  C3, as stated: producing the render descriptor leaves the matrix and the translation of
  every transform unchanged. It does not: \<open>css()\<close> assigns to \<open>A[0][0]\<close>, \<open>A[1][1]\<close>, \<open>b[0]\<close>
  and \<open>b[1]\<close> of the transform itself. A transform scaling by one half comes out with the
  identity matrix, and a transform with an element and the translation \<open>(5, 500)\<close> comes
  out with the translation \<open>(0, 200)\<close>.
\<close>

theorem css_changes_transform_counterexample:
  "T_A (snd (css (Fin 800) example_document
      \<lparr>T_A = ((Fin (1 / 2), Fin 0), (Fin 0, Fin (1 / 2))), T_b = (Fin 0, Fin 0), T_elem = None\<rparr>))
     = ((Fin 1, Fin 0), (Fin 0, Fin 1))
   \<and> T_b (snd (css (Fin 800) example_document
      \<lparr>T_A = ((Fin 2, Fin 0), (Fin 0, Fin 2)), T_b = (Fin 5, Fin 500), T_elem = Some 0\<rparr>))
     = (Fin 0, Fin 200)"
  by (simp add: css_def Let_def example_document_def example_element_def css_st_def css_dy_def
      css_dx_def jgt_def jle_def jeq_def jsub_def)

text \<open>
  C3, amended: producing the render descriptor leaves the whole transform unchanged when
  no diagonal entry is below \<open>1\<close> and, if an element is attached, the translation lies
  within the pan borders: \<open>b[1]\<close> neither above \<open>st * A[0][0]\<close> nor below \<open>-dy\<close>, \<open>b[0]\<close>
  neither above \<open>0\<close> nor below \<open>-dx\<close>. Otherwise the transform is assigned to, as
  \<open>css_frame\<close> and the counterexample say.
\<close>

theorem css_unchanged_within_bounds:
  assumes "\<not> jlt (fst (fst (T_A T))) (Fin 1)" and "\<not> jlt (snd (snd (T_A T))) (Fin 1)"
    and "case T_elem T of None \<Rightarrow> True
         | Some e \<Rightarrow>
             \<not> jgt (snd (T_b T)) (jmul (css_st (d e)) (fst (fst (T_A T))))
           \<and> \<not> jlt (snd (T_b T)) (jneg (css_dy sh (d e) (fst (fst (T_A T)))))
           \<and> \<not> jgt (fst (T_b T)) (Fin 0)
           \<and> \<not> jlt (fst (T_b T)) (jneg (css_dx (d e) (fst (fst (T_A T)))))"
  shows "snd (css sh d T) = T"
proof -
  obtain M v el where T: "T = \<lparr>T_A = M, T_b = v, T_elem = el\<rparr>" by (cases T)
  obtain a00 a01 a10 a11 where M: "M = ((a00, a01), (a10, a11))" by (metis prod.collapse)
  obtain x y where v: "v = (x, y)" by (cases v)
  show ?thesis
    using assms unfolding T M v by (cases el) (simp_all add: css_def Let_def)
qed

theorem css_unchanged_within_bounds_witness:
  "\<not> jlt (Fin 2) (Fin 1)
   \<and> \<not> jgt (Fin (- 10)) (jmul (css_st (example_document 0)) (Fin 2))
   \<and> \<not> jlt (Fin (- 10)) (jneg (css_dy (Fin 800) (example_document 0) (Fin 2)))
   \<and> \<not> jgt (Fin (- 20)) (Fin 0)
   \<and> \<not> jlt (Fin (- 20)) (jneg (css_dx (example_document 0) (Fin 2)))
   \<and> snd (css (Fin 800) example_document
        \<lparr>T_A = ((Fin 2, Fin 0), (Fin 0, Fin 2)), T_b = (Fin (- 20), Fin (- 10)), T_elem = Some 0\<rparr>)
      = \<lparr>T_A = ((Fin 2, Fin 0), (Fin 0, Fin 2)), T_b = (Fin (- 20), Fin (- 10)), T_elem = Some 0\<rparr>"
proof -
  let ?T = "\<lparr>T_A = ((Fin 2, Fin 0), (Fin 0, Fin 2)), T_b = (Fin (- 20), Fin (- 10)), T_elem = Some 0\<rparr>"
  have h1: "\<not> jlt (fst (fst (T_A ?T))) (Fin 1)" and h2: "\<not> jlt (snd (snd (T_A ?T))) (Fin 1)"
    by simp_all
  have h3: "case T_elem ?T of None \<Rightarrow> True
         | Some e \<Rightarrow>
             \<not> jgt (snd (T_b ?T)) (jmul (css_st (example_document e)) (fst (fst (T_A ?T))))
           \<and> \<not> jlt (snd (T_b ?T)) (jneg (css_dy (Fin 800) (example_document e) (fst (fst (T_A ?T)))))
           \<and> \<not> jgt (fst (T_b ?T)) (Fin 0)
           \<and> \<not> jlt (fst (T_b ?T)) (jneg (css_dx (example_document e) (fst (fst (T_A ?T)))))"
    by (simp add: example_document_def example_element_def css_st_def css_dy_def
      css_dx_def jgt_def jle_def jeq_def jsub_def)
  show ?thesis
    using h1 h3 css_unchanged_within_bounds [OF h1 h2 h3] by simp
qed

text \<open>
  C4, as stated: a transform with no element is always rendered as a descriptor of six
  numbers. It is not: the function returns only inside \<open>if (elem)\<close>, so for the identity,
  which has no element, the result is \<open>undefined\<close>. The engine relies on that: the
  identity that \<open>reset\<close> commits has to put the surface back in native scroll mode.
\<close>

theorem css_without_element_counterexample:
  "T_elem identity = None \<and> fst (css (Fin 800) example_document identity) = CssUndefined"
  by (simp add: css_def identity_def Let_def)

text \<open>
  C4, amended: for a transform with no element, rendering skips the pan clamping (the
  translation is not assigned) and raises the diagonal entries below \<open>1\<close> to \<open>1\<close> in the
  transform itself; when both diagonal entries are at most \<open>1\<close>, so that the floored scale
  is exactly \<open>1\<close> as it is for the identity, it returns no descriptor (\<open>undefined\<close>), the
  result that puts the surface in native scroll mode. What is returned for a transform
  with no element whose floored scale is not \<open>1\<close> is no part of this statement.
\<close>

theorem css_without_element:
  assumes "T_elem T = None"
  shows "T_b (snd (css sh d T)) = T_b T
       \<and> T_A (snd (css sh d T)) =
           ((if jlt (fst (fst (T_A T))) (Fin 1) then Fin 1 else fst (fst (T_A T)), snd (fst (T_A T))),
            (fst (snd (T_A T)), if jlt (snd (snd (T_A T))) (Fin 1) then Fin 1 else snd (snd (T_A T))))
       \<and> (jle (fst (fst (T_A T))) (Fin 1) \<and> jle (snd (snd (T_A T))) (Fin 1) \<longrightarrow>
            fst (css sh d T) = CssUndefined
          \<and> \<not> truthy_css (fst (css sh d T))
          \<and> fst (fst (T_A (snd (css sh d T)))) = Fin 1
          \<and> snd (snd (T_A (snd (css sh d T)))) = Fin 1)"
  using assms by (auto simp: css_def Let_def jle_def jeq_def)

theorem css_without_element_witness:
  "T_elem \<lparr>T_A = ((Fin (1 / 2), Fin 0), (Fin 0, Fin 1)), T_b = (Fin 7, Fin 9), T_elem = None\<rparr> = None
   \<and> jle (Fin (1 / 2)) (Fin 1) \<and> jle (Fin 1) (Fin 1)
   \<and> fst (css (Fin 800) example_document
        \<lparr>T_A = ((Fin (1 / 2), Fin 0), (Fin 0, Fin 1)), T_b = (Fin 7, Fin 9), T_elem = None\<rparr>)
      = CssUndefined
   \<and> snd (css (Fin 800) example_document
        \<lparr>T_A = ((Fin (1 / 2), Fin 0), (Fin 0, Fin 1)), T_b = (Fin 7, Fin 9), T_elem = None\<rparr>)
      = \<lparr>T_A = ((Fin 1, Fin 0), (Fin 0, Fin 1)), T_b = (Fin 7, Fin 9), T_elem = None\<rparr>"
proof -
  let ?T = "\<lparr>T_A = ((Fin (1 / 2), Fin 0), (Fin 0, Fin 1)), T_b = (Fin 7, Fin 9), T_elem = None\<rparr>"
  have h: "T_elem ?T = None" by simp
  have g: "jle (Fin (1 / 2)) (Fin 1)" "jle (Fin 1) (Fin 1)"
    by (simp_all add: jle_def jeq_def)
  have "T_elem (snd (css (Fin 800) example_document ?T)) = None"
    using css_frame [of "Fin 800" example_document ?T] by simp
  then show ?thesis
    using h g css_without_element [OF h, of "Fin 800" example_document]
    by (cases "snd (css (Fin 800) example_document ?T)") simp
qed

text \<open>
  C6. For every transform whose diagonal entries are below \<open>1\<close>, and more generally
  whose diagonal entries are each below \<open>1\<close> or at least \<open>1\<close>, rendering leaves diagonal
  entries of at least \<open>1\<close> in the transform, and a descriptor, when one is returned,
  carries diagonal entries of at least \<open>1\<close>.
\<close>

theorem css_scale_floor:
  assumes "jlt (fst (fst (T_A T))) (Fin 1) \<or> jge (fst (fst (T_A T))) (Fin 1)"
      and "jlt (snd (snd (T_A T))) (Fin 1) \<or> jge (snd (snd (T_A T))) (Fin 1)"
  shows "jge (fst (fst (T_A (snd (css sh d T))))) (Fin 1)
       \<and> jge (snd (snd (T_A (snd (css sh d T))))) (Fin 1)
       \<and> (case fst (css sh d T) of
            Matrix a _ _ d' _ _ \<Rightarrow> jge a (Fin 1) \<and> jge d' (Fin 1)
          | _ \<Rightarrow> True)"
proof -
  have f: "jge (fst (fst (T_A (snd (css sh d T))))) (Fin 1)"
          "jge (snd (snd (T_A (snd (css sh d T))))) (Fin 1)"
    using jge_floor [OF assms(1)] jge_floor [OF assms(2)] css_frame [of sh d T] by simp_all
  have "jge a (Fin 1) \<and> jge d' (Fin 1)" if "fst (css sh d T) = Matrix a b' c d' x y"
    for a b' c d' x y
    using css_matrix_entries [OF that] f by (metis fst_conv snd_conv)
  then show ?thesis using f by (simp split: css_result.split)
qed

theorem css_scale_floor_witness:
  "(jlt (Fin (1 / 2)) (Fin 1) \<or> jge (Fin (1 / 2)) (Fin 1))
   \<and> (jlt (Fin (1 / 4)) (Fin 1) \<or> jge (Fin (1 / 4)) (Fin 1))
   \<and> jge (fst (fst (T_A (snd (css (Fin 800) example_document
        \<lparr>T_A = ((Fin (1 / 2), Fin 0), (Fin 0, Fin (1 / 4))), T_b = (Fin 0, Fin 0),
         T_elem = Some 0\<rparr>))))) (Fin 1)
   \<and> jge (snd (snd (T_A (snd (css (Fin 800) example_document
        \<lparr>T_A = ((Fin (1 / 2), Fin 0), (Fin 0, Fin (1 / 4))), T_b = (Fin 0, Fin 0),
         T_elem = Some 0\<rparr>))))) (Fin 1)"
proof -
  let ?T = "\<lparr>T_A = ((Fin (1 / 2), Fin 0), (Fin 0, Fin (1 / 4))), T_b = (Fin 0, Fin 0),
            T_elem = Some 0\<rparr>"
  have h1: "jlt (fst (fst (T_A ?T))) (Fin 1) \<or> jge (fst (fst (T_A ?T))) (Fin 1)" by simp
  have h2: "jlt (snd (snd (T_A ?T))) (Fin 1) \<or> jge (snd (snd (T_A ?T))) (Fin 1)" by simp
  show ?thesis
    using h1 h2 css_scale_floor [OF h1 h2, of "Fin 800" example_document] by simp
qed

text \<open>
  C7. A transform whose two diagonal entries are exactly \<open>1\<close>, the identity among them,
  rendered with an element attached gives \<open>false\<close>, the result that puts the surface in
  native scroll mode, and no descriptor.
\<close>

theorem css_identity_is_native:
  assumes "fst (fst (T_A T)) = Fin 1" and "snd (snd (T_A T)) = Fin 1" and "T_elem T = Some e"
  shows "fst (css sh d T) = CssFalse"
  using assms by (simp add: css_def Let_def jeq_def)

theorem css_identity_is_native_witness:
  "fst (fst (T_A (identity\<lparr>T_elem := Some 0\<rparr>))) = Fin 1
   \<and> snd (snd (T_A (identity\<lparr>T_elem := Some 0\<rparr>))) = Fin 1
   \<and> T_elem (identity\<lparr>T_elem := Some 0\<rparr>) = Some 0
   \<and> fst (css (Fin 800) example_document (identity\<lparr>T_elem := Some 0\<rparr>)) = CssFalse"
proof -
  let ?T = "identity\<lparr>T_elem := Some 0\<rparr>"
  have h1: "fst (fst (T_A ?T)) = Fin 1" and h2: "snd (snd (T_A ?T)) = Fin 1"
    by (simp_all add: identity_def)
  have h3: "T_elem ?T = Some 0" by simp
  show ?thesis
    using h1 h2 h3 css_identity_is_native [OF h1 h2 h3, of "Fin 800" example_document] by simp
qed

section \<open>The store under rendering\<close>

text \<open>
  \<open>repaint\<close> changes no field of the engine but \<open>inZoom\<close>, and in the store only the object
  \<open>resultantZoom\<close> refers to; \<open>previewZoom\<close> adds one object and changes no other.
\<close>

lemma css_at_fst: "fst (css_at sh d h r) = fst (css sh d (h ! r))"
  by (simp add: css_at_def split: prod.split)

lemma css_at_snd: "snd (css_at sh d h r) = h[r := snd (css sh d (h ! r))]"
  by (simp add: css_at_def split: prod.split)

lemma css_identity: "css sh d identity = (CssUndefined, identity)"
  by (simp add: css_def identity_def Let_def)

lemma repaint_fields:
  "activeZoom (repaint s) = activeZoom s" "resultantZoom (repaint s) = resultantZoom s"
  "zooming (repaint s) = zooming s" "srcCoords (repaint s) = srcCoords s"
  "tapped (repaint s) = tapped s" "config (repaint s) = config s" "elem (repaint s) = elem s"
  "screen_height (repaint s) = screen_height s" "has_raf (repaint s) = has_raf s"
  by (simp_all add: repaint_def Let_def case_prod_beta)

lemma repaint_heap: "\<exists>X. heap (repaint s) = (heap s)[resultantZoom s := X]"
  by (auto simp: repaint_def Let_def case_prod_beta css_at_snd)

lemma repaint_length: "length (heap (repaint s)) = length (heap s)"
  using repaint_heap [of s] by auto

lemma repaint_other: "r \<noteq> resultantZoom s \<Longrightarrow> heap (repaint s) ! r = heap s ! r"
  using repaint_heap [of s] by auto

lemma previewZoom_fields:
  "resultantZoom (previewZoom z s) = length (heap s)"
  "activeZoom (previewZoom z s) = activeZoom s"
  "zooming (previewZoom z s) = zooming s"
  "srcCoords (previewZoom z s) = srcCoords s"
  "tapped (previewZoom z s) = tapped s"
  "config (previewZoom z s) = config s"
  by (simp_all add: previewZoom_def repaint_fields)

lemma previewZoom_heap: "\<exists>X. heap (previewZoom z s) = heap s @ [X]"
proof -
  let ?s1 = "s\<lparr>heap := heap s @ [cascade z (heap s ! activeZoom s) (Some (elem s))],
               resultantZoom := length (heap s)\<rparr>"
  obtain X where "heap (repaint ?s1) = (heap ?s1)[resultantZoom ?s1 := X]"
    using repaint_heap [of ?s1] by blast
  then have "heap (previewZoom z s) = heap s @ [X]"
    by (simp add: previewZoom_def)
  then show ?thesis by blast
qed

section \<open>The listeners\<close>

lemma touchmove_cases:
  assumes "touchmove t s = Inr (eff, s')"
  shows "s' = s \<or> (\<exists>z. s' = previewZoom z s)"
proof (cases t)
  case None
  then show ?thesis using assms by (simp add: touchmove_def split: if_splits)
next
  case (Some ts)
  show ?thesis
  proof (cases "zooming s")
    case False
    then show ?thesis using assms Some by (simp add: touchmove_def split: if_splits)
  next
    case True
    show ?thesis
    proof (cases "getCoords (document s (elem s)) ts")
      case (Inl e)
      then show ?thesis using assms Some True by (simp add: touchmove_def)
    next
      case (Inr c)
      then have "s' = previewZoom (zoom (srcCoords s) c (cfg_rotate (config s)) None) s"
        using assms Some True by (simp add: touchmove_def Let_def)
      then show ?thesis by blast
    qed
  qed
qed

lemma touchstart_keeps_transforms:
  assumes "touchstart t s = Inr (eff, s')" and "has_raf s \<or> \<not> tapped s"
  shows "activeZoom s' = activeZoom s \<and> resultantZoom s' = resultantZoom s \<and> heap s' = heap s"
proof (cases t)
  case None
  then show ?thesis using assms by (simp add: touchstart_def split: if_splits)
next
  case (Some ts)
  consider "length ts = 2" | "length ts = 1" | "length ts \<noteq> 2" "length ts \<noteq> 1" by blast
  then show ?thesis
  proof cases
    case 1
    then show ?thesis using assms Some
      by (clarsimp simp: touchstart_def Let_def split: sum.splits)
  next
    case 2
    then show ?thesis using assms Some
      by (clarsimp simp: touchstart_def Let_def reset_def split: if_splits sum.splits)
  next
    case 3
    then show ?thesis using assms Some
      by (clarsimp simp: touchstart_def Let_def split: if_splits sum.splits)
  qed
qed

lemma touchend_commits:
  "zooming s \<Longrightarrow> activeZoom (snd (touchend s)) = resultantZoom s \<and> heap (snd (touchend s)) = heap s"
  by (simp add: touchend_def finalize_def)

section \<open>The states the engine reaches\<close>

text \<open>
  \<open>wf_state\<close> holds of the engine as constructed and is kept by every listener and by
  every frame of a reset.
\<close>

lemma wf_Zoom: "wf_state (Zoom d sh raf e cfg)"
  by (simp add: wf_state_def Zoom_def identity_ref_def)

lemma repaint_identity:
  assumes "heap s ! resultantZoom s = identity" and "resultantZoom s < length (heap s)"
  shows "heap (repaint s) = heap s"
  using assms by (simp add: repaint_def css_at_def css_identity Let_def list_update_same_conv)

lemma wf_repaint:
  assumes "wf_state s"
  shows "wf_state (repaint s)"
proof (cases "resultantZoom s = identity_ref")
  case True
  then have "heap (repaint s) = heap s"
    using assms repaint_identity [of s] by (simp add: wf_state_def)
  then show ?thesis using assms by (simp add: wf_state_def repaint_fields)
next
  case False
  then have "heap (repaint s) ! identity_ref = heap s ! identity_ref"
    using repaint_other [of identity_ref s] by simp
  then show ?thesis using assms by (simp add: wf_state_def repaint_fields repaint_length)
qed

lemma wf_previewZoom:
  assumes "wf_state s"
  shows "wf_state (previewZoom z s)"
proof -
  have "wf_state (s\<lparr>heap := heap s @ [cascade z (heap s ! activeZoom s) (Some (elem s))],
               resultantZoom := length (heap s)\<rparr>)"
    using assms by (auto simp: wf_state_def nth_append identity_ref_def)
  then show ?thesis unfolding previewZoom_def by (rule wf_repaint)
qed

lemma wf_setZoom:
  assumes "wf_state s" and "r < length (heap s)"
  shows "wf_state (setZoom r s)"
proof -
  have "wf_state (finalize (s\<lparr>resultantZoom := r\<rparr>))"
    using assms by (simp add: wf_state_def finalize_def)
  then show ?thesis unfolding setZoom_def by (rule wf_repaint)
qed

lemma wf_touchmove:
  assumes "wf_state s" and "touchmove t s = Inr (eff, s')"
  shows "wf_state s'"
  using touchmove_cases [OF assms(2)] assms(1) wf_previewZoom by blast

lemma wf_touchend:
  assumes "wf_state s"
  shows "wf_state (snd (touchend s))"
  using assms by (simp add: touchend_def wf_state_def finalize_def)

lemma wf_step:
  assumes "wf_state s"
  shows "wf_state (snd (step a time s))"
proof -
  have i: "identity_ref < length (heap s)"
    using assms by (auto simp: wf_state_def identity_ref_def)
  have "wf_state (s\<lparr>heap := heap s @ [T]\<rparr>)" for T
    using assms by (auto simp: wf_state_def nth_append identity_ref_def)
  then have "wf_state (setZoom (length (heap s)) (s\<lparr>heap := heap s @ [T]\<rparr>))" for T
    by (rule wf_setZoom) simp
  then show ?thesis
    using wf_setZoom [OF assms i] by (simp add: step_def Let_def)
qed

lemma wf_reset:
  assumes "wf_state s"
  shows "wf_state (snd (reset s))"
proof -
  have i: "identity_ref < length (heap s)"
    using assms by (auto simp: wf_state_def identity_ref_def)
  show ?thesis using assms wf_setZoom [OF assms i] by (simp add: reset_def)
qed

lemma wf_state_fields:
  "wf_state (s\<lparr>zooming := z\<rparr>) = wf_state s" "wf_state (s\<lparr>tapped := tp\<rparr>) = wf_state s"
  "wf_state (s\<lparr>srcCoords := c\<rparr>) = wf_state s"
  by (simp_all add: wf_state_def)

lemma wf_touchstart:
  assumes "wf_state s" and "touchstart t s = Inr (eff, s')"
  shows "wf_state s'"
proof (cases t)
  case None
  then show ?thesis using assms by (simp add: touchstart_def split: if_splits)
next
  case (Some ts)
  consider "length ts = 2" | "length ts = 1" | "length ts \<noteq> 2" "length ts \<noteq> 1" by blast
  then show ?thesis
  proof cases
    case 1
    then show ?thesis using assms Some
      by (clarsimp simp: touchstart_def Let_def wf_state_fields split: sum.splits)
  next
    case 2
    then show ?thesis using assms Some
      by (clarsimp simp: touchstart_def Let_def case_prod_beta wf_state_fields wf_reset
          split: if_splits sum.splits)
  next
    case 3
    then show ?thesis using assms Some
      by (clarsimp simp: touchstart_def Let_def wf_state_fields split: if_splits sum.splits)
  qed
qed

lemma example_Zoom_eq:
  "example_Zoom =
     \<lparr>heap = [identity],
      document = example_document(0 := example_element\<lparr>style_transform_origin := Some ''0 0''\<rparr>),
      screen_height = Fin 800, has_raf = True, elem = 0, zooming = False, inZoom = False,
      activeZoom = 0, resultantZoom = 0, srcCoords = ((NaN, NaN), (NaN, NaN)),
      tapped = False, config = \<lparr>cfg_pan = False, cfg_rotate = True\<rparr>\<rparr>"
  by (simp add: example_Zoom_def Zoom_def identity_ref_def default_config_def defaults_def
      example_document_def)

lemma example_session_eq:
  "example_session = example_Zoom\<lparr>zooming := True, srcCoords := ((Fin 0, Fin 0), (Fin 10, Fin 0))\<rparr>"
  by (simp add: example_session_def touchstart_def example_Zoom_eq Let_def getCoordsDouble_def
      example_document_def example_element_def jsub_def)

lemma degenerate_session_eq:
  "degenerate_session = example_Zoom\<lparr>zooming := True, srcCoords := ((Fin 5, Fin 5), (Fin 5, Fin 5))\<rparr>"
  by (simp add: degenerate_session_def touchstart_def example_Zoom_eq Let_def getCoordsDouble_def
      example_document_def example_element_def jsub_def)

lemma wf_example_session: "wf_state example_session"
  by (simp add: example_session_eq example_Zoom_eq wf_state_def identity_ref_def)

text \<open>
  A \<open>touchmove\<close> of the example session, with the second finger moved from \<open>(10, 0)\<close> to
  \<open>(20, 0)\<close>: the surface is rendered scaled by two, shifted up by the scroll offset.
\<close>

lemma touchmove_example:
  "touchmove (Some [(Fin 0, Fin 0), (Fin 20, Fin 0)]) example_session
   = Inr (prevent_default,
       example_session
       \<lparr>heap := [identity,
                 \<lparr>T_A = ((Fin 2, Fin 0), (Fin 0, Fin 2)), T_b = (Fin 0, Fin 0), T_elem = Some 0\<rparr>],
        resultantZoom := 1,
        inZoom := True,
        document := (document example_session)
          (0 := example_element
             \<lparr>dataset_scrollTop := Some (Fin 100),
              style_transform_origin := Some ''0 0'',
              style_transform :=
                Some (Transform_value (Matrix (Fin 2) (Fin 0) (Fin 0) (Fin 2) (Fin 0) (Fin (- 200)))),
              style_overflow := Some Overflow_visible\<rparr>)\<rparr>)"
proof -
  have c: "getCoords (document example_session (elem example_session))
             [(Fin 0, Fin 0), (Fin 20, Fin 0)] = Inr ((Fin 0, Fin 0), (Fin 20, Fin 0))"
    by (simp add: example_session_eq example_Zoom_eq getCoordsDouble_def example_document_def
        example_element_def jsub_def Let_def)
  have z: "zoom (srcCoords example_session) ((Fin 0, Fin 0), (Fin 20, Fin 0))
             (cfg_rotate (config example_session)) None
           = \<lparr>T_A = ((Fin 2, Fin 0), (Fin 0, Fin 2)), T_b = (Fin 0, Fin 0), T_elem = None\<rparr>"
    using zoom_example by (simp add: example_session_eq example_Zoom_eq)
  have k: "cascade \<lparr>T_A = ((Fin 2, Fin 0), (Fin 0, Fin 2)), T_b = (Fin 0, Fin 0), T_elem = None\<rparr>
             identity (Some 0)
           = \<lparr>T_A = ((Fin 2, Fin 0), (Fin 0, Fin 2)), T_b = (Fin 0, Fin 0), T_elem = Some 0\<rparr>"
    by (simp add: cascade_def identity_def mult_def apply_m_def vcadd_def scmult_def)
  have r: "css (Fin 800) d
             \<lparr>T_A = ((Fin 2, Fin 0), (Fin 0, Fin 2)), T_b = (Fin 0, Fin 0), T_elem = Some 0\<rparr>
           = (Matrix (Fin 2) (Fin 0) (Fin 0) (Fin 2) (Fin 0) (Fin (- 200)),
              \<lparr>T_A = ((Fin 2, Fin 0), (Fin 0, Fin 2)), T_b = (Fin 0, Fin 0), T_elem = Some 0\<rparr>)"
    if "scrollTop (d 0) = Fin 100" "scrollHeight (d 0) = Fin 1000" "clientWidth (d 0) = Fin 300"
    for d
    using that
    by (simp add: css_def Let_def css_st_def css_dy_def css_dx_def jgt_def jle_def jeq_def jsub_def)
  show ?thesis
    using c z
    apply (simp add: touchmove_def Let_def)
    apply (simp add: example_session_eq example_Zoom_eq previewZoom_def k repaint_def css_at_def
        r example_document_def example_element_def jgt_def Let_def)
    done
qed

section \<open>The active transform during a gesture\<close>

text \<open>
  C5. \<open>activeZoom\<close> is not updated in mid-gesture. A \<open>touchmove\<close> leaves the reference
  \<open>activeZoom\<close> and the transform it refers to as they were; it changes no transform
  already in the store (the new \<open>resultantZoom\<close> is a new object) and leaves \<open>zooming\<close>
  and \<open>srcCoords\<close> alone. A \<open>touchstart\<close> leaves \<open>activeZoom\<close> and the store as they were
  unless it is the second tap of a double tap on a window without
  \<open>requestAnimationFrame\<close>, where the reset commits at once. The updates are those of
  \<open>finalize\<close>, which only \<open>touchend\<close> and \<open>setZoom\<close>, the commit of a reset step, call.
\<close>

theorem activeZoom_unchanged_mid_gesture:
  assumes "wf_state s"
  shows "(case touchmove t s of
            Inl err \<Rightarrow> True
          | Inr (eff, s') \<Rightarrow>
              activeZoom s' = activeZoom s
            \<and> heap s' ! activeZoom s' = heap s ! activeZoom s
            \<and> take (length (heap s)) (heap s') = heap s
            \<and> zooming s' = zooming s \<and> srcCoords s' = srcCoords s)
       \<and> (has_raf s \<or> \<not> tapped s \<longrightarrow>
           (case touchstart t s of
              Inl err \<Rightarrow> True
            | Inr (eff, s') \<Rightarrow>
                activeZoom s' = activeZoom s \<and> heap s' = heap s))"
proof (intro conjI impI)
  have a: "activeZoom s < length (heap s)" using assms by (simp add: wf_state_def)
  have tm: "activeZoom s' = activeZoom s
            \<and> heap s' ! activeZoom s' = heap s ! activeZoom s
            \<and> take (length (heap s)) (heap s') = heap s
            \<and> zooming s' = zooming s \<and> srcCoords s' = srcCoords s"
    if "touchmove t s = Inr (eff, s')" for eff s'
  proof -
    from touchmove_cases [OF that] show ?thesis
    proof
      assume "s' = s" then show ?thesis by simp
    next
      assume "\<exists>z. s' = previewZoom z s"
      then obtain z where z: "s' = previewZoom z s" by blast
      obtain X where X: "heap s' = heap s @ [X]"
        using previewZoom_heap [of z s] z by blast
      have f: "activeZoom s' = activeZoom s" "zooming s' = zooming s" "srcCoords s' = srcCoords s"
        by (simp_all add: z previewZoom_fields)
      show ?thesis using a by (simp add: f X nth_append)
    qed
  qed
  show "case touchmove t s of
            Inl err \<Rightarrow> True
          | Inr (eff, s') \<Rightarrow>
              activeZoom s' = activeZoom s
            \<and> heap s' ! activeZoom s' = heap s ! activeZoom s
            \<and> take (length (heap s)) (heap s') = heap s
            \<and> zooming s' = zooming s \<and> srcCoords s' = srcCoords s"
  proof (cases "touchmove t s")
    case (Inl e)
    then show ?thesis by simp
  next
    case (Inr p)
    obtain eff s' where p: "p = (eff, s')" by (cases p)
    show ?thesis using tm [of eff s'] Inr p by auto
  qed
  assume h: "has_raf s \<or> \<not> tapped s"
  show "case touchstart t s of
              Inl err \<Rightarrow> True
            | Inr (eff, s') \<Rightarrow>
                activeZoom s' = activeZoom s \<and> heap s' = heap s"
  proof (cases "touchstart t s")
    case (Inl e)
    then show ?thesis by simp
  next
    case (Inr p)
    obtain eff s' where p: "p = (eff, s')" by (cases p)
    show ?thesis using touchstart_keeps_transforms [of t s eff s'] h Inr p by simp
  qed
qed

theorem activeZoom_unchanged_mid_gesture_witness:
  "wf_state example_session
   \<and> (has_raf example_session \<or> \<not> tapped example_session)
   \<and> touchmove (Some [(Fin 0, Fin 0), (Fin 20, Fin 0)]) example_session \<noteq> Inl TypeError
   \<and> (case touchmove (Some [(Fin 0, Fin 0), (Fin 20, Fin 0)]) example_session of
        Inl err \<Rightarrow> True
      | Inr (eff, s') \<Rightarrow>
          activeZoom s' = activeZoom example_session
        \<and> heap s' ! activeZoom s' = heap example_session ! activeZoom example_session
        \<and> take (length (heap example_session)) (heap s') = heap example_session
        \<and> zooming s' = zooming example_session \<and> srcCoords s' = srcCoords example_session)
   \<and> (case touchstart (Some [(Fin 0, Fin 0), (Fin 20, Fin 0)]) example_session of
        Inl err \<Rightarrow> True
      | Inr (eff, s') \<Rightarrow>
          activeZoom s' = activeZoom example_session \<and> heap s' = heap example_session)"
proof -
  have h: "wf_state example_session" by (rule wf_example_session)
  have g: "has_raf example_session \<or> \<not> tapped example_session"
    by (simp add: example_session_eq example_Zoom_eq)
  have n: "touchmove (Some [(Fin 0, Fin 0), (Fin 20, Fin 0)]) example_session \<noteq> Inl TypeError"
    by (simp add: touchmove_def example_session_eq example_Zoom_eq Let_def)
  show ?thesis
    using h g n
      activeZoom_unchanged_mid_gesture [OF h, of "Some [(Fin 0, Fin 0), (Fin 20, Fin 0)]"]
    by blast
qed

section \<open>A session whose source points coincide\<close>

lemma jmul_NaN [simp]: "jmul x NaN = NaN"
  by (cases x) simp_all

lemma jadd_NaN [simp]: "jadd x NaN = NaN"
  by (cases x) simp_all

lemma jlt_NaN [simp]: "jlt x NaN = False"
  by (cases x) simp_all

lemma jmul_zero: "jmul (Fin 0) x = Fin 0 \<or> jmul (Fin 0) x = NaN"
  by (cases x) (simp_all add: inf_of_sign_def)

lemma jdiv_zero_NaN: "x = Fin 0 \<or> x = NaN \<Longrightarrow> jdiv x (Fin 0) = NaN"
  by (auto simp: inf_of_sign_def)

lemma rotscale_zero_source: "rotscale (Fin 0, Fin 0) c = ((NaN, NaN), (NaN, NaN))"
proof -
  have a: "dot (Fin 0, Fin 0) (Fin 0, Fin 0) = Fin 0" by (simp add: dot_def)
  have b: "dot (Fin 0, Fin 0) c = Fin 0 \<or> dot (Fin 0, Fin 0) c = NaN"
    using jmul_zero [of "fst c"] jmul_zero [of "snd c"] by (auto simp: dot_def)
  have w: "wedge (Fin 0, Fin 0) c = Fin 0 \<or> wedge (Fin 0, Fin 0) c = NaN"
    using jmul_zero [of "fst c"] jmul_zero [of "snd c"] by (auto simp: wedge_def jsub_def)
  show ?thesis
    by (simp add: rotscale_def Let_def a rotate_m_def jdiv_zero_NaN [OF b] jdiv_zero_NaN [OF w])
qed

lemma zoom_zero_source:
  assumes "minus_v (snd sc) (fst sc) = (Fin 0, Fin 0)"
  shows "zoom sc dc True e = nan_transform e"
proof -
  have "minus_v x (NaN, NaN) = (NaN, NaN)" for x
    by (simp add: minus_v_def jsub_def)
  then show ?thesis
    by (simp add: zoom_def Let_def assms rotscale_zero_source nan_transform_def apply_m_def
        vcadd_def scmult_def)
qed

lemma cascade_nan: "cascade (nan_transform e) U e' = nan_transform e'"
  by (simp add: cascade_def nan_transform_def mult_def apply_m_def vcadd_def scmult_def)

lemma css_nan:
  "css sh d (nan_transform (Some e)) = (Matrix NaN NaN NaN NaN NaN NaN, nan_transform (Some e))"
  by (simp add: css_def nan_transform_def Let_def jgt_def jeq_def jsub_def)

lemma getCoords_nonempty: "ts \<noteq> [] \<Longrightarrow> getCoords el ts = Inr (projr (getCoords el ts))"
  by (cases "(el, ts)" rule: getCoords.cases) simp_all

lemma previewZoom_nan:
  "previewZoom (nan_transform e) s =
     s\<lparr>heap := heap s @ [nan_transform (Some (elem s))],
       resultantZoom := length (heap s),
       inZoom := True,
       document :=
         (let el = document s (elem s);
              d1 = (if jgt (scrollTop el) (Fin 0)
                    then (document s)(elem s := el\<lparr>dataset_scrollTop := Some (scrollTop el)\<rparr>)
                    else document s)
          in d1(elem s := (d1 (elem s))
               \<lparr>style_transform := Some (Transform_value (Matrix NaN NaN NaN NaN NaN NaN)),
                style_overflow := Some Overflow_visible\<rparr>))\<rparr>"
  by (simp add: previewZoom_def cascade_nan repaint_def css_at_def css_nan Let_def)

lemma touchmove_zero_source:
  assumes "zooming s" and "ts \<noteq> []"
    and "minus_v (snd (srcCoords s)) (fst (srcCoords s)) = (Fin 0, Fin 0)"
    and "cfg_rotate (config s)"
  shows "touchmove (Some ts) s = Inr (prevent_default, previewZoom (nan_transform None) s)"
proof -
  obtain c where c: "getCoords (document s (elem s)) ts = Inr c"
    using getCoords_nonempty [OF assms(2)] by blast
  show ?thesis
    using assms(1,4) by (simp add: touchmove_def c Let_def zoom_zero_source [OF assms(3)])
qed

text \<open>
  C1, as stated: when the two source points coincide, a \<open>touchmove\<close> skips the update and
  leaves the transform state unchanged. It does not: the listener has no check of the
  source delta. In the session started with both fingers on the pixel \<open>(5, 5)\<close>, where
  \<open>resultantZoom\<close> is the identity, a \<open>touchmove\<close> to \<open>(0, 0)\<close> and \<open>(10, 0)\<close> changes the
  state: \<open>resultantZoom\<close> becomes a new transform, all of whose coefficients are \<open>NaN\<close>.
\<close>

theorem touchmove_zero_source_delta_counterexample:
  "zooming degenerate_session
   \<and> minus_v (snd (srcCoords degenerate_session)) (fst (srcCoords degenerate_session))
       = (Fin 0, Fin 0)
   \<and> heap degenerate_session ! resultantZoom degenerate_session = identity
   \<and> touchmove (Some [(Fin 0, Fin 0), (Fin 10, Fin 0)]) degenerate_session
       \<noteq> Inr (prevent_default, degenerate_session)
   \<and> heap (snd (projr (touchmove (Some [(Fin 0, Fin 0), (Fin 10, Fin 0)]) degenerate_session)))
       ! resultantZoom
           (snd (projr (touchmove (Some [(Fin 0, Fin 0), (Fin 10, Fin 0)]) degenerate_session)))
       = \<lparr>T_A = ((NaN, NaN), (NaN, NaN)), T_b = (NaN, NaN), T_elem = Some 0\<rparr>"
proof -
  have z: "zooming degenerate_session" and r: "cfg_rotate (config degenerate_session)"
    and e: "elem degenerate_session = 0" and h: "heap degenerate_session = [identity]"
    and rz: "resultantZoom degenerate_session = 0"
    by (simp_all add: degenerate_session_eq example_Zoom_eq)
  have m: "minus_v (snd (srcCoords degenerate_session)) (fst (srcCoords degenerate_session))
       = (Fin 0, Fin 0)"
    by (simp add: degenerate_session_eq minus_v_def jsub_def)
  have ne: "[(Fin 0, Fin 0), (Fin 10, Fin 0)] \<noteq> []" by simp
  have t: "touchmove (Some [(Fin 0, Fin 0), (Fin 10, Fin 0)]) degenerate_session
           = Inr (prevent_default, previewZoom (nan_transform None) degenerate_session)"
    by (rule touchmove_zero_source [OF z ne m r])
  have hp: "heap (previewZoom (nan_transform None) degenerate_session)
            = [identity, nan_transform (Some 0)]"
    and rp: "resultantZoom (previewZoom (nan_transform None) degenerate_session) = 1"
    by (simp_all add: previewZoom_nan h e)
  have "previewZoom (nan_transform None) degenerate_session \<noteq> degenerate_session"
    using hp h by auto
  then show ?thesis
    using z m by (simp add: t h rz hp rp) (simp add: nan_transform_def)
qed

text \<open>
  C1, amended: when the two source points coincide, a \<open>touchmove\<close> of the session raises
  no fault and does not skip the update: it replaces \<open>resultantZoom\<close> by a newly built
  transform and leaves \<open>activeZoom\<close> and every transform already in the store unchanged.
  With rotation enabled the six coefficients of the new transform are all \<open>NaN\<close>, the
  outcome of the division \<open>0 / 0\<close> in \<open>rotscale\<close>, and it is rendered: the surface goes to
  transformed mode with the descriptor of six \<open>NaN\<close>s.
\<close>

theorem touchmove_zero_source_delta:
  assumes "zooming s" and "ts \<noteq> []"
    and "minus_v (snd (srcCoords s)) (fst (srcCoords s)) = (Fin 0, Fin 0)"
  shows "case touchmove (Some ts) s of
           Inl err \<Rightarrow> False
         | Inr (eff, s') \<Rightarrow>
             resultantZoom s' = length (heap s)
           \<and> take (length (heap s)) (heap s') = heap s
           \<and> length (heap s') = Suc (length (heap s))
           \<and> activeZoom s' = activeZoom s
           \<and> (cfg_rotate (config s) \<longrightarrow>
                heap s' ! resultantZoom s'
                  = \<lparr>T_A = ((NaN, NaN), (NaN, NaN)), T_b = (NaN, NaN), T_elem = Some (elem s)\<rparr>
              \<and> inZoom s'
              \<and> style_transform (document s' (elem s'))
                  = Some (Transform_value (Matrix NaN NaN NaN NaN NaN NaN)))"
proof -
  define z where
    "z = zoom (srcCoords s) (projr (getCoords (document s (elem s)) ts)) (cfg_rotate (config s))
           None"
  define c where "c = projr (getCoords (document s (elem s)) ts)"
  have g: "getCoords (document s (elem s)) ts = Inr c"
    unfolding c_def by (rule getCoords_nonempty [OF assms(2)])
  have t: "touchmove (Some ts) s = Inr (prevent_default, previewZoom z s)"
    using assms(1) by (simp add: touchmove_def Let_def g z_def c_def [symmetric])
  obtain X where X: "heap (previewZoom z s) = heap s @ [X]"
    using previewZoom_heap [of z s] by blast
  have r: "heap (previewZoom z s) ! length (heap s)
             = \<lparr>T_A = ((NaN, NaN), (NaN, NaN)), T_b = (NaN, NaN), T_elem = Some (elem s)\<rparr>
           \<and> inZoom (previewZoom z s)
           \<and> style_transform (document (previewZoom z s) (elem s))
               = Some (Transform_value (Matrix NaN NaN NaN NaN NaN NaN))"
    if "cfg_rotate (config s)"
  proof -
    have "z = nan_transform None"
      using that zoom_zero_source [OF assms(3)] by (simp add: z_def)
    then show ?thesis
      by (simp add: previewZoom_nan Let_def) (simp add: nan_transform_def)
  qed
  have e: "elem (previewZoom z s) = elem s"
    by (simp add: previewZoom_def repaint_fields)
  show ?thesis
    using r by (simp add: t previewZoom_fields X e)
qed

theorem touchmove_zero_source_delta_witness:
  "zooming degenerate_session
   \<and> [(Fin 0, Fin 0), (Fin 10, Fin 0)] \<noteq> []
   \<and> minus_v (snd (srcCoords degenerate_session)) (fst (srcCoords degenerate_session))
       = (Fin 0, Fin 0)
   \<and> cfg_rotate (config degenerate_session)
   \<and> (case touchmove (Some [(Fin 0, Fin 0), (Fin 10, Fin 0)]) degenerate_session of
         Inl err \<Rightarrow> False
       | Inr (eff, s') \<Rightarrow>
           resultantZoom s' = length (heap degenerate_session)
         \<and> take (length (heap degenerate_session)) (heap s') = heap degenerate_session
         \<and> length (heap s') = Suc (length (heap degenerate_session))
         \<and> activeZoom s' = activeZoom degenerate_session
         \<and> (cfg_rotate (config degenerate_session) \<longrightarrow>
              heap s' ! resultantZoom s'
                = \<lparr>T_A = ((NaN, NaN), (NaN, NaN)), T_b = (NaN, NaN),
                   T_elem = Some (elem degenerate_session)\<rparr>
            \<and> inZoom s'
            \<and> style_transform (document s' (elem s'))
                = Some (Transform_value (Matrix NaN NaN NaN NaN NaN NaN))))"
proof -
  have z: "zooming degenerate_session" and r: "cfg_rotate (config degenerate_session)"
    by (simp_all add: degenerate_session_eq example_Zoom_eq)
  have m: "minus_v (snd (srcCoords degenerate_session)) (fst (srcCoords degenerate_session))
       = (Fin 0, Fin 0)"
    by (simp add: degenerate_session_eq minus_v_def jsub_def)
  have ne: "[(Fin 0, Fin 0), (Fin 10, Fin 0)] \<noteq> ([] :: vec list)" by simp
  show ?thesis
    using z ne m r touchmove_zero_source_delta [OF z ne m] by blast
qed

section \<open>The frames of an animated reset\<close>

lemma repaint_no_element:
  assumes "T_elem (heap s ! resultantZoom s) = None"
  shows "\<not> inZoom (repaint s)
       \<and> style_overflow (document (repaint s) (elem (repaint s))) = Some Overflow_scroll
       \<and> style_transform (document (repaint s) (elem (repaint s))) = Some Transform_none"
proof -
  have "fst (css (screen_height s) (document s) (heap s ! resultantZoom s)) = CssUndefined"
    using assms by (simp add: css_def Let_def)
  then show ?thesis
    by (simp add: repaint_def Let_def case_prod_beta css_at_fst)
qed

text \<open>
  C10. For all transforms \<open>Z\<close> and \<open>I\<close> and every progress value, the transform
  \<open>Transform.avg\<close> returns has no element; rendering it returns no descriptor
  (\<open>undefined\<close>); and every frame of an animated reset that requests another frame, the
  intermediate ones, leaves the surface in native scroll presentation: \<open>inZoom\<close> false,
  \<open>overflow\<close> \<open>scroll\<close>, \<open>transform\<close> \<open>none\<close>.
\<close>

theorem interpolated_transform_has_no_element:
  "T_elem (Transform_avg Z I p) = None
   \<and> fst (css sh d (Transform_avg Z I p)) = CssUndefined
   \<and> (fst (step a time s) \<noteq> None \<longrightarrow>
        \<not> inZoom (snd (step a time s))
      \<and> style_overflow (document (snd (step a time s)) (elem (snd (step a time s))))
          = Some Overflow_scroll
      \<and> style_transform (document (snd (step a time s)) (elem (snd (step a time s))))
          = Some Transform_none)"
proof (intro conjI impI)
  show e: "T_elem (Transform_avg Z I p) = None" by (simp add: Transform_avg_def)
  show "fst (css sh d (Transform_avg Z I p)) = CssUndefined"
    by (simp add: css_def Let_def Transform_avg_def)
  assume n: "fst (step a time s) \<noteq> None"
  define q where "q = jdiv (jsub time (case startTime a of None \<Rightarrow> time
                   | Some t0 \<Rightarrow> if truthy_num t0 then t0 else time)) (Fin 100)"
  define u where "u = finalize (s\<lparr>heap := heap s @
                      [Transform_avg (heap s ! anim_Z a) (heap s ! identity_ref) q],
                      resultantZoom := length (heap s)\<rparr>)"
  have s': "snd (step a time s) = repaint u"
    using n by (simp add: step_def Let_def q_def u_def setZoom_def split: if_splits)
  have "T_elem (heap u ! resultantZoom u) = None"
    by (simp add: u_def finalize_def Transform_avg_def)
  from repaint_no_element [OF this]
  show "\<not> inZoom (snd (step a time s))"
    and "style_overflow (document (snd (step a time s)) (elem (snd (step a time s))))
          = Some Overflow_scroll"
    and "style_transform (document (snd (step a time s)) (elem (snd (step a time s))))
          = Some Transform_none"
    unfolding s' by simp_all
qed

theorem interpolated_transform_has_no_element_witness:
  "fst (step \<lparr>anim_Z = 0, startTime = Some (Fin 16)\<rparr> (Fin 66) example_session) \<noteq> None
   \<and> \<not> inZoom (snd (step \<lparr>anim_Z = 0, startTime = Some (Fin 16)\<rparr> (Fin 66) example_session))
   \<and> style_overflow (document
        (snd (step \<lparr>anim_Z = 0, startTime = Some (Fin 16)\<rparr> (Fin 66) example_session))
        (elem (snd (step \<lparr>anim_Z = 0, startTime = Some (Fin 16)\<rparr> (Fin 66) example_session))))
       = Some Overflow_scroll
   \<and> style_transform (document
        (snd (step \<lparr>anim_Z = 0, startTime = Some (Fin 16)\<rparr> (Fin 66) example_session))
        (elem (snd (step \<lparr>anim_Z = 0, startTime = Some (Fin 16)\<rparr> (Fin 66) example_session))))
       = Some Transform_none"
proof -
  have h: "fst (step \<lparr>anim_Z = 0, startTime = Some (Fin 16)\<rparr> (Fin 66) example_session) \<noteq> None"
    by (simp add: step_def Let_def truthy_num_def jsub_def jge_def jle_def jeq_def)
  show ?thesis
    using h interpolated_transform_has_no_element
      [where a = "\<lparr>anim_Z = 0, startTime = Some (Fin 16)\<rparr>" and time = "Fin 66"
         and s = example_session]
    by blast
qed

end
